theory Spec2Isabelle
  imports Complex_Main
begin

section \<open>Values\<close>

text \<open>
  Python's \<^verbatim>\<open>decimal.Decimal\<close> is modelled by the rationals. The source computes in the
  default context of 28 significant digits: an addition, subtraction, multiplication or
  division is exact when its result fits these digits and is rounded otherwise. The
  rationals therefore compute what the source computes on the values of the program's
  columns: an amount is a \<^verbatim>\<open>Numeric(10, 2)\<close> value, a percentage a \<^verbatim>\<open>Numeric(5, 2)\<close>
  value, a rate a percentage divided by 100. A request may carry a Decimal outside these
  ranges; a theorem that states an arithmetic identity for every input has the ranges
  among its hypotheses.
\<close>

type_synonym decimal = rat

definition is_amount :: "decimal \<Rightarrow> bool" where
  "is_amount x = (of_int \<lfloor>x * 100\<rfloor> = x * 100 \<and> \<bar>x\<bar> < 100000000)"

definition is_percentage :: "decimal option \<Rightarrow> bool" where
  "is_percentage p =
     (case p of None \<Rightarrow> True | Some x \<Rightarrow> of_int \<lfloor>x * 100\<rfloor> = x * 100 \<and> \<bar>x\<bar> < 1000)"

definition is_rate :: "decimal option \<Rightarrow> bool" where
  "is_rate r =
     (case r of None \<Rightarrow> True | Some x \<Rightarrow> of_int \<lfloor>x * 10000\<rfloor> = x * 10000 \<and> \<bar>x\<bar> < 10)"

text \<open>
  Truthiness of an optional id, as Python's \<^verbatim>\<open>if x:\<close> tests it: \<^verbatim>\<open>None\<close> and 0 are
  false.
\<close>

definition id_truthy :: "int option \<Rightarrow> bool" where
  "id_truthy i = (case i of None \<Rightarrow> False | Some n \<Rightarrow> n \<noteq> 0)"

text \<open>
  \<^verbatim>\<open>x.quantize(Decimal('0.01'))\<close> rounds to two places with the default rounding mode
  of the decimal context, \<^verbatim>\<open>ROUND_HALF_EVEN\<close>.
\<close>

definition round_half_even :: "rat \<Rightarrow> int" where
  "round_half_even x =
     (let f = \<lfloor>x\<rfloor>; d = x - of_int f
      in if d < 1 / 2 then f
         else if 1 / 2 < d then f + 1
         else if even f then f else f + 1)"

definition quantize_cents :: "decimal \<Rightarrow> decimal" where
  "quantize_cents x = of_int (round_half_even (x * 100)) / 100"

section \<open>The persistent store\<close>

text \<open>
  The tables the sales and payment code reads and writes, with the columns that code
  touches. A table is the list of its rows; \<^verbatim>\<open>query.filter(...).first()\<close> and
  \<^verbatim>\<open>fetchone()\<close> are \<^const>\<open>find\<close>. Nullable columns are options. Timestamps are
  natural numbers. Commits are taken to succeed: the referential constraints and the
  column scales of the database engine are not part of the model.
\<close>

datatype statut = Paye | En_attente | Rembourse

record user =
  usr_id :: int
  usr_role :: string
  usr_stripe_account_id :: "string option"
  usr_payout_enabled :: bool
  usr_kyc_status :: "string option"
  usr_total_revenue :: "decimal option"

record client =
  cl_id :: int
  cl_lifetime_value :: "decimal option"
  cl_last_purchase_date :: "nat option"

record produit =
  prod_id :: int
  prod_actif :: bool

record commercial =
  com_id :: int
  com_pourcentage :: "decimal option"

record partenaire =
  par_id :: int
  par_pourcentage :: "decimal option"

record vente =
  v_id :: int
  v_user_id :: "int option"
  v_client_id :: "int option"
  v_produit_id :: "int option"
  v_montant :: decimal
  v_discount_applied :: decimal
  v_description :: "string option"
  v_date :: nat
  v_source :: "string option"
  v_commission_plateforme :: decimal
  v_commission_commerciale :: decimal
  v_commission_partenaire :: decimal
  v_montant_net_freelance :: decimal
  v_commercial_id :: "int option"
  v_partenaire_id :: "int option"
  v_stripe_payment_id :: "string option"
  v_statut_paiement :: "statut option"
  v_feedback :: "string option"
  v_invoice_id :: "int option"

record affiliation =
  aff_id :: int
  aff_source_type :: string
  aff_source_id :: int
  aff_vente_id :: int
  aff_commission :: decimal

record database =
  users :: "user list"
  clients :: "client list"
  produits :: "produit list"
  commerciaux :: "commercial list"
  partenaires :: "partenaire list"
  ventes :: "vente list"
  affiliations :: "affiliation list"
  next_vente_id :: int
  next_affiliation_id :: int

text \<open>The percentages of a store are values of their column type.\<close>

definition store_percentages :: "database \<Rightarrow> bool" where
  "store_percentages db =
     (list_all (\<lambda>c. is_percentage (com_pourcentage c)) (commerciaux db) \<and>
      list_all (\<lambda>p. is_percentage (par_pourcentage p)) (partenaires db))"

section \<open>Commission calculation\<close>

subsection \<open>\<^verbatim>\<open>calculate_commissions_with_partners\<close> (app/utils/stripe.py)\<close>

record commission_data =
  gross_amount :: decimal
  discount :: decimal
  discounted_amount :: decimal
  platform_fee :: decimal
  platform_fee_rate :: decimal
  commercial_commission :: decimal
  commercial_rate :: decimal
  partner_commission :: decimal
  partner_rate :: decimal
  total_fees :: decimal
  net_amount :: decimal

definition calculate_commissions_with_partners ::
  "decimal \<Rightarrow> decimal \<Rightarrow> decimal option \<Rightarrow> decimal option \<Rightarrow> commission_data" where
  "calculate_commissions_with_partners amount discnt commercial_rt partner_rt =
     (let discounted = amount - discnt;
          fee_rate = 10 / 100;
          fee = discounted * fee_rate;
          commercial_com =
            (case commercial_rt of
               None \<Rightarrow> 0
             | Some r \<Rightarrow> if r \<noteq> 0 then discounted * r else 0);
          partner_com =
            (case partner_rt of
               None \<Rightarrow> 0
             | Some r \<Rightarrow> if r \<noteq> 0 then discounted * r else 0);
          fees = fee + commercial_com + partner_com;
          net = discounted - fees
      in \<lparr> gross_amount = amount,
           discount = discnt,
           discounted_amount = discounted,
           platform_fee = fee,
           platform_fee_rate = fee_rate,
           commercial_commission = commercial_com,
           commercial_rate = (case commercial_rt of None \<Rightarrow> 0 | Some r \<Rightarrow> r),
           partner_commission = partner_com,
           partner_rate = (case partner_rt of None \<Rightarrow> 0 | Some r \<Rightarrow> r),
           total_fees = fees,
           net_amount = net \<rparr>)"

subsection \<open>\<^verbatim>\<open>calculate_commissions\<close> (app/routes/sales_routes.py)\<close>

text \<open>
  The function receives \<^verbatim>\<open>montant\<close> as a float and continues with
  \<^verbatim>\<open>Decimal(str(montant))\<close>; the model takes that Decimal. The four results are the
  quantized Decimals; their final conversion to float, which picks the float nearest to
  each two-place value, is not modelled.
\<close>

record commissions =
  plateforme :: decimal
  commerciale :: decimal
  partenaire :: decimal
  freelance :: decimal

definition calculate_commissions ::
  "database \<Rightarrow> decimal \<Rightarrow> int option \<Rightarrow> int option \<Rightarrow> commissions" where
  "calculate_commissions conn montant commercial_id partenaire_id =
     (let plateforme_rate =
            (if id_truthy commercial_id \<and> id_truthy partenaire_id then 8 / 100
             else if id_truthy commercial_id then 10 / 100
             else if id_truthy partenaire_id then 13 / 100
             else 15 / 100);
          commerciale_rate =
            (if id_truthy commercial_id then
               (case find (\<lambda>c. Some (com_id c) = commercial_id) (commerciaux conn) of
                  None \<Rightarrow> 5 / 100
                | Some c \<Rightarrow>
                    (case com_pourcentage c of
                       None \<Rightarrow> 5 / 100
                     | Some p \<Rightarrow> if p \<noteq> 0 then p / 100 else 5 / 100))
             else 5 / 100);
          partenaire_rate =
            (if id_truthy partenaire_id then
               (case find (\<lambda>p. Some (par_id p) = partenaire_id) (partenaires conn) of
                  None \<Rightarrow> 2 / 100
                | Some q \<Rightarrow>
                    (case par_pourcentage q of
                       None \<Rightarrow> 2 / 100
                     | Some p \<Rightarrow> if p \<noteq> 0 then p / 100 else 2 / 100))
             else 2 / 100);
          commission_plateforme = montant * plateforme_rate;
          commission_commerciale =
            (if id_truthy commercial_id then montant * commerciale_rate else 0);
          commission_partenaire =
            (if id_truthy partenaire_id then montant * partenaire_rate else 0);
          montant_net_freelance =
            montant - commission_plateforme - commission_commerciale - commission_partenaire
      in \<lparr> plateforme = quantize_cents commission_plateforme,
           commerciale = quantize_cents commission_commerciale,
           partenaire = quantize_cents commission_partenaire,
           freelance = quantize_cents montant_net_freelance \<rparr>)"

section \<open>Sales (app/routers/sales.py)\<close>

datatype error =
    HTTPException nat string
  | KeyError
  | ValueError
  | TypeError
  | ValidationError
  | ApiError
  | NameError

text \<open>
  \<^verbatim>\<open>obj.attr = v\<close> on the row a query returned, followed by a commit, rewrites that
  row: the first one the query's filter selects.
\<close>

fun update_first :: "('a \<Rightarrow> bool) \<Rightarrow> ('a \<Rightarrow> 'a) \<Rightarrow> 'a list \<Rightarrow> 'a list" where
  "update_first P f [] = []"
| "update_first P f (x # xs) = (if P x then f x # xs else x # update_first P f xs)"

text \<open>\<^verbatim>\<open>x.pourcentage / 100 if x.pourcentage else None\<close>\<close>

definition rate_of_pourcentage :: "decimal option \<Rightarrow> decimal option" where
  "rate_of_pourcentage p =
     (case p of None \<Rightarrow> None | Some x \<Rightarrow> if x \<noteq> 0 then Some (x / 100) else None)"

text \<open>\<^verbatim>\<open>x or Decimal('0.0')\<close>\<close>

definition dec_or_zero :: "decimal option \<Rightarrow> decimal" where
  "dec_or_zero d = (case d of None \<Rightarrow> 0 | Some x \<Rightarrow> x)"

text \<open>
  The request body \<^verbatim>\<open>VenteCreate\<close>. The framework validates it before the handler
  runs: \<^verbatim>\<open>montant\<close> and \<^verbatim>\<open>discount_applied\<close> are \<^verbatim>\<open>ge=0\<close>.
\<close>

record vente_create =
  vc_user_id :: int
  vc_client_id :: int
  vc_produit_id :: int
  vc_montant :: decimal
  vc_discount_applied :: "decimal option"
  vc_description :: "string option"
  vc_source :: "string option"
  vc_commercial_id :: "int option"
  vc_partenaire_id :: "int option"

text \<open>The two insertions of affiliation rows that end \<^verbatim>\<open>create_sale\<close>.\<close>

definition add_affiliation :: "string \<Rightarrow> int \<Rightarrow> int \<Rightarrow> decimal \<Rightarrow> database \<Rightarrow> database" where
  "add_affiliation kind src vid com db =
     db \<lparr> affiliations := affiliations db @
            [\<lparr> aff_id = next_affiliation_id db, aff_source_type = kind,
               aff_source_id = src, aff_vente_id = vid, aff_commission = com \<rparr>],
          next_affiliation_id := next_affiliation_id db + 1 \<rparr>"

definition create_affiliations ::
  "int option \<Rightarrow> int option \<Rightarrow> int \<Rightarrow> commission_data \<Rightarrow> database \<Rightarrow> database" where
  "create_affiliations commercial_id partenaire_id vid cd db =
     (let db1 = (case commercial_id of
                   None \<Rightarrow> db
                 | Some c \<Rightarrow>
                     if c \<noteq> 0
                     then add_affiliation ''commercial'' c vid (commercial_commission cd) db
                     else db)
      in (case partenaire_id of
            None \<Rightarrow> db1
          | Some p \<Rightarrow>
              if p \<noteq> 0
              then add_affiliation ''partenaire'' p vid (partner_commission cd) db1
              else db1))"

text \<open>
  The accumulator updates: \<^verbatim>\<open>client.lifetime_value = (client.lifetime_value or 0) + montant\<close>
  with the purchase date, and \<^verbatim>\<open>freelancer.total_revenue = (freelancer.total_revenue or 0) + net\<close>.
\<close>

definition credit_client :: "nat \<Rightarrow> decimal \<Rightarrow> client \<Rightarrow> client" where
  "credit_client now amount c =
     c \<lparr> cl_lifetime_value := Some (dec_or_zero (cl_lifetime_value c) + amount),
         cl_last_purchase_date := Some now \<rparr>"

definition credit_freelancer :: "decimal \<Rightarrow> user \<Rightarrow> user" where
  "credit_freelancer net u =
     u \<lparr> usr_total_revenue := Some (dec_or_zero (usr_total_revenue u) + net) \<rparr>"

definition create_sale ::
  "nat \<Rightarrow> vente_create \<Rightarrow> user \<Rightarrow> database \<Rightarrow> error + (vente \<times> database)" where
  "create_sale now sale_data current_user db =
     (if vc_user_id sale_data \<noteq> usr_id current_user \<and> usr_role current_user \<noteq> ''admin''
      then Inl (HTTPException 403 ''You can only create sales for your own account'')
      else case find (\<lambda>c. cl_id c = vc_client_id sale_data) (clients db) of
        None \<Rightarrow> Inl (HTTPException 404 ''Client not found'')
      | Some client \<Rightarrow>
      (case find (\<lambda>p. prod_id p = vc_produit_id sale_data) (produits db) of
        None \<Rightarrow> Inl (HTTPException 404 ''Product not found'')
      | Some product \<Rightarrow>
      if \<not> prod_actif product
      then Inl (HTTPException 400 ''Product is not active'')
      else if id_truthy (vc_commercial_id sale_data) \<and>
              find (\<lambda>c. Some (com_id c) = vc_commercial_id sale_data) (commerciaux db) = None
      then Inl (HTTPException 404 ''Commercial not found'')
      else if id_truthy (vc_partenaire_id sale_data) \<and>
              find (\<lambda>p. Some (par_id p) = vc_partenaire_id sale_data) (partenaires db) = None
      then Inl (HTTPException 404 ''Partner not found'')
      else
        let c_rate =
              (if id_truthy (vc_commercial_id sale_data) then
                 (case find (\<lambda>c. Some (com_id c) = vc_commercial_id sale_data) (commerciaux db) of
                    None \<Rightarrow> None
                  | Some c \<Rightarrow> rate_of_pourcentage (com_pourcentage c))
               else None);
            p_rate =
              (if id_truthy (vc_partenaire_id sale_data) then
                 (case find (\<lambda>p. Some (par_id p) = vc_partenaire_id sale_data) (partenaires db) of
                    None \<Rightarrow> None
                  | Some p \<Rightarrow> rate_of_pourcentage (par_pourcentage p))
               else None);
            cd = calculate_commissions_with_partners (vc_montant sale_data)
                   (dec_or_zero (vc_discount_applied sale_data)) c_rate p_rate;
            new_sale =
              \<lparr> v_id = next_vente_id db,
                v_user_id = Some (vc_user_id sale_data),
                v_client_id = Some (vc_client_id sale_data),
                v_produit_id = Some (vc_produit_id sale_data),
                v_montant = vc_montant sale_data,
                v_discount_applied = dec_or_zero (vc_discount_applied sale_data),
                v_description = vc_description sale_data,
                v_date = now,
                v_source = vc_source sale_data,
                v_commission_plateforme = platform_fee cd,
                v_commission_commerciale = commercial_commission cd,
                v_commission_partenaire = partner_commission cd,
                v_montant_net_freelance = net_amount cd,
                v_commercial_id = vc_commercial_id sale_data,
                v_partenaire_id = vc_partenaire_id sale_data,
                v_stripe_payment_id = None,
                v_statut_paiement = Some En_attente,
                v_feedback = None,
                v_invoice_id = None \<rparr>;
            db1 = db \<lparr> ventes := ventes db @ [new_sale],
                      next_vente_id := next_vente_id db + 1 \<rparr>;
            db2 = db1 \<lparr> clients :=
                      update_first (\<lambda>c. cl_id c = vc_client_id sale_data)
                        (credit_client now (vc_montant sale_data)) (clients db1) \<rparr>;
            db3 = db2 \<lparr> users :=
                      update_first (\<lambda>u. usr_id u = vc_user_id sale_data)
                        (credit_freelancer (net_amount cd)) (users db2) \<rparr>;
            db4 = create_affiliations (vc_commercial_id sale_data)
                    (vc_partenaire_id sale_data) (v_id new_sale) cd db3
        in Inr (new_sale, db4)))"

text \<open>
  The request body \<^verbatim>\<open>VenteUpdate\<close>: four optional fields. \<^verbatim>\<open>dict(exclude_unset=True)\<close>
  keeps the fields the request set, also those it set to null; the outer option says
  whether a field was set.
\<close>

record vente_update =
  vu_statut_paiement :: "statut option option"
  vu_feedback :: "string option option"
  vu_stripe_payment_id :: "string option option"
  vu_invoice_id :: "int option option"

definition apply_vente_update :: "vente_update \<Rightarrow> vente \<Rightarrow> vente" where
  "apply_vente_update d s =
     (let s1 = (case vu_statut_paiement d of None \<Rightarrow> s | Some x \<Rightarrow> s \<lparr> v_statut_paiement := x \<rparr>);
          s2 = (case vu_feedback d of None \<Rightarrow> s1 | Some x \<Rightarrow> s1 \<lparr> v_feedback := x \<rparr>);
          s3 = (case vu_stripe_payment_id d of None \<Rightarrow> s2 | Some x \<Rightarrow> s2 \<lparr> v_stripe_payment_id := x \<rparr>)
      in (case vu_invoice_id d of None \<Rightarrow> s3 | Some x \<Rightarrow> s3 \<lparr> v_invoice_id := x \<rparr>))"

definition update_sale ::
  "int \<Rightarrow> vente_update \<Rightarrow> user \<Rightarrow> database \<Rightarrow> error + (vente \<times> database)" where
  "update_sale sale_id sale_data current_user db =
     (case find (\<lambda>v. v_id v = sale_id) (ventes db) of
        None \<Rightarrow> Inl (HTTPException 404 ''Sale not found'')
      | Some sale \<Rightarrow>
          if v_user_id sale \<noteq> Some (usr_id current_user) \<and> usr_role current_user \<noteq> ''admin''
          then Inl (HTTPException 403 ''Not enough permissions'')
          else Inr (apply_vente_update sale_data sale,
                    db \<lparr> ventes := update_first (\<lambda>v. v_id v = sale_id)
                                      (apply_vente_update sale_data) (ventes db) \<rparr>))"

section \<open>Payment events (app/routers/stripe.py)\<close>

text \<open>
  A field of the provider's JSON object that holds an integer: missing, null or a number.
\<close>

datatype json_int = Absent | Null | IntVal int

text \<open>
  The payment intent of a \<^verbatim>\<open>payment_intent.succeeded\<close> event. The metadata dict is the
  list of its entries, looked up with \<^const>\<open>map_of\<close>; a missing \<^verbatim>\<open>metadata\<close> key reads
  as the empty dict.
\<close>

record payment_intent =
  pi_id :: string
  pi_metadata :: "(string \<times> string) list"
  pi_amount :: json_int
  pi_application_fee_amount :: json_int

text \<open>
  \<^verbatim>\<open>int(metadata.get(key, 0))\<close>: the default 0 when the key is missing, the parsed
  string otherwise. \<^verbatim>\<open>py_int\<close> stands for Python's \<^verbatim>\<open>int\<close> on a string, with
  \<^const>\<open>None\<close> where it raises \<^verbatim>\<open>ValueError\<close>.
\<close>

definition int_of_metadata ::
  "(string \<Rightarrow> int option) \<Rightarrow> (string \<times> string) list \<Rightarrow> string \<Rightarrow> error + int" where
  "int_of_metadata py_int metadata key =
     (case map_of metadata key of
        None \<Rightarrow> Inr 0
      | Some s \<Rightarrow> (case py_int s of None \<Rightarrow> Inl ValueError | Some n \<Rightarrow> Inr n))"

text \<open>
  \<^verbatim>\<open>int(metadata.get(key, 0)) if key in metadata else None\<close>
\<close>

definition opt_int_of_metadata ::
  "(string \<Rightarrow> int option) \<Rightarrow> (string \<times> string) list \<Rightarrow> string \<Rightarrow> error + int option" where
  "opt_int_of_metadata py_int metadata key =
     (case map_of metadata key of
        None \<Rightarrow> Inr None
      | Some s \<Rightarrow> (case py_int s of None \<Rightarrow> Inl ValueError | Some n \<Rightarrow> Inr (Some n)))"

text \<open>
  The part of \<^verbatim>\<open>handle_payment_success\<close> after the replay check. It reads the amount
  and the application fee, validates a \<^verbatim>\<open>VenteCreate\<close>, and would then look up the
  rates, build the sale with \<^verbatim>\<open>date=datetime.utcnow()\<close>, credit the accumulators and
  add the affiliations. The module imports none of \<^verbatim>\<open>datetime\<close>, \<^verbatim>\<open>Commercial\<close>,
  \<^verbatim>\<open>Partenaire\<close> and \<^verbatim>\<open>Affiliation\<close>: the lookup of a sales agent or partner, and at
  the latest the construction of the sale, raises \<^verbatim>\<open>NameError\<close> before anything is
  added to the session. So this part always ends with an exception, and the value of the
  function is that exception; the clock \<^verbatim>\<open>now\<close> of the handler is never read.
\<close>

definition record_payment :: "payment_intent \<Rightarrow> error" where
  "record_payment payment_intent =
     (case pi_amount payment_intent of
        Absent \<Rightarrow> KeyError
      | Null \<Rightarrow> TypeError
      | IntVal cents \<Rightarrow>
      (case pi_application_fee_amount payment_intent of
        Null \<Rightarrow> TypeError
      | _ \<Rightarrow>
      if (of_int cents / 100 :: decimal) < 0 then ValidationError else NameError))"

definition handle_payment_success ::
  "(string \<Rightarrow> int option) \<Rightarrow> nat \<Rightarrow> payment_intent \<Rightarrow> database \<Rightarrow> error + database" where
  "handle_payment_success py_int now payment_intent db =
     (let metadata = pi_metadata payment_intent in
      if metadata = [] then Inr db
      else
      case int_of_metadata py_int metadata ''freelance_id'' of Inl e \<Rightarrow> Inl e
      | Inr freelance_id \<Rightarrow>
      (case int_of_metadata py_int metadata ''product_id'' of Inl e \<Rightarrow> Inl e
      | Inr product_id \<Rightarrow>
      (case int_of_metadata py_int metadata ''client_id'' of Inl e \<Rightarrow> Inl e
      | Inr client_id \<Rightarrow>
      (case opt_int_of_metadata py_int metadata ''commercial_id'' of Inl e \<Rightarrow> Inl e
      | Inr commercial_id \<Rightarrow>
      (case opt_int_of_metadata py_int metadata ''partenaire_id'' of Inl e \<Rightarrow> Inl e
      | Inr partenaire_id \<Rightarrow>
      (case find (\<lambda>v. v_stripe_payment_id v = Some (pi_id payment_intent)) (ventes db) of
         Some existing_sale \<Rightarrow>
           if v_statut_paiement existing_sale \<noteq> Some Paye
           then Inr (db \<lparr> ventes :=
                       update_first (\<lambda>v. v_stripe_payment_id v = Some (pi_id payment_intent))
                         (\<lambda>v. v \<lparr> v_statut_paiement := Some Paye \<rparr>) (ventes db) \<rparr>)
           else Inr db
       | None \<Rightarrow> Inl (record_payment payment_intent)))))))"

text \<open>The account of an \<^verbatim>\<open>account.updated\<close> event.\<close>

record requirements =
  req_currently_due :: "string list"
  req_disabled_reason :: "string option"

record account =
  acc_id :: string
  acc_payouts_enabled :: "bool option"
  acc_requirements :: "requirements option"

definition handle_account_updated :: "account \<Rightarrow> database \<Rightarrow> database" where
  "handle_account_updated account db =
     (case find (\<lambda>u. usr_stripe_account_id u = Some (acc_id account)) (users db) of
        None \<Rightarrow> db
      | Some _ \<Rightarrow>
          db \<lparr> users :=
                 update_first (\<lambda>u. usr_stripe_account_id u = Some (acc_id account))
                   (\<lambda>u. let u1 = u \<lparr> usr_payout_enabled :=
                                      (case acc_payouts_enabled account of
                                         None \<Rightarrow> False | Some b \<Rightarrow> b) \<rparr>
                        in (case acc_requirements account of
                              None \<Rightarrow> u1
                            | Some r \<Rightarrow>
                                if req_currently_due r \<noteq> []
                                then u1 \<lparr> usr_kyc_status := Some ''pending'' \<rparr>
                                else if req_disabled_reason r \<noteq> None \<and>
                                        req_disabled_reason r \<noteq> Some []
                                then u1 \<lparr> usr_kyc_status := Some ''rejected'' \<rparr>
                                else u1 \<lparr> usr_kyc_status := Some ''verified'' \<rparr>))
                   (users db) \<rparr>)"

text \<open>The checkout session of a \<^verbatim>\<open>checkout.session.completed\<close> event.\<close>

record checkout_session =
  cs_id :: string
  cs_metadata :: "(string \<times> string) list"
  cs_amount_total :: "int option"
  cs_payment_intent :: "string option"

datatype event =
    Payment_intent_succeeded payment_intent
  | Account_updated account
  | Checkout_session_completed checkout_session
  | Other_event string

text \<open>
  \<^verbatim>\<open>stripe.Webhook.construct_event(payload, sig_header, secret)\<close> belongs to the
  provider's library: it is a parameter of the handlers, returning the event or the
  exception it raises.
\<close>

datatype stripe_error = Invalid_payload | Signature_verification_error | Other_exception

type_synonym construct_event =
  "string \<Rightarrow> string option \<Rightarrow> string option \<Rightarrow> stripe_error + event"

text \<open>
  \<^verbatim>\<open>verify_stripe_webhook\<close> (app/utils/stripe.py): the two exceptions of the library
  become an HTTP 400; any other exception passes through.
\<close>

datatype webhook_error = Http_error error | Uncaught stripe_error

definition verify_stripe_webhook ::
  "construct_event \<Rightarrow> string \<Rightarrow> string option \<Rightarrow> string \<Rightarrow> webhook_error + event" where
  "verify_stripe_webhook construct_ev settings_secret signature payload =
     (case construct_ev payload signature (Some settings_secret) of
        Inr ev \<Rightarrow> Inr ev
      | Inl Invalid_payload \<Rightarrow> Inl (Http_error (HTTPException 400 ''Invalid payload''))
      | Inl Signature_verification_error \<Rightarrow>
          Inl (Http_error (HTTPException 400 ''Invalid signature''))
      | Inl Other_exception \<Rightarrow> Inl (Uncaught Other_exception))"

datatype webhook_body = Status_success | Status_error webhook_error

text \<open>
  The webhook endpoint. Every exception is caught and reported in the body of a response
  whose HTTP status is 200 like that of a success; a handler that raises has not
  committed, so the store is the one before the call. The response is the HTTP status
  with the body.
\<close>

definition stripe_webhook ::
  "construct_event \<Rightarrow> (string \<Rightarrow> int option) \<Rightarrow> string \<Rightarrow> nat \<Rightarrow>
   string option \<Rightarrow> string \<Rightarrow> database \<Rightarrow> (nat \<times> webhook_body) \<times> database" where
  "stripe_webhook construct_ev py_int settings_secret now stripe_signature payload db =
     (case verify_stripe_webhook construct_ev settings_secret stripe_signature payload of
        Inl e \<Rightarrow> ((200, Status_error e), db)
      | Inr (Payment_intent_succeeded payment_intent) \<Rightarrow>
          (case handle_payment_success py_int now payment_intent db of
             Inl e \<Rightarrow> ((200, Status_error (Http_error e)), db)
           | Inr db' \<Rightarrow> ((200, Status_success), db'))
      | Inr (Account_updated account) \<Rightarrow>
          ((200, Status_success), handle_account_updated account db)
      | Inr _ \<Rightarrow> ((200, Status_success), db))"

section \<open>Payment events (app/routes/stripe_routes.py, app/utils/stripe_utils.py)\<close>

text \<open>Truthiness of an optional string: \<^verbatim>\<open>None\<close> and the empty string are false.\<close>

definition str_truthy :: "string option \<Rightarrow> bool" where
  "str_truthy s = (case s of None \<Rightarrow> False | Some x \<Rightarrow> x \<noteq> [])"

text \<open>
  What \<^verbatim>\<open>stripe.PaymentIntent.retrieve\<close> returns, as far as the code reads it; the call
  goes to the provider, so it is a parameter, with \<^const>\<open>None\<close> where it raises.
\<close>

record retrieved_intent =
  ri_transfer :: "string option"
  ri_application_fee_amount :: "int option"

text \<open>\<^verbatim>\<open>int(x) if x else None\<close> on a metadata entry.\<close>

definition int_if_present ::
  "(string \<Rightarrow> int option) \<Rightarrow> string option \<Rightarrow> error + int option" where
  "int_if_present py_int x =
     (if str_truthy x
      then (case x of
              None \<Rightarrow> Inr None
            | Some s \<Rightarrow> (case py_int s of None \<Rightarrow> Inl ValueError | Some n \<Rightarrow> Inr (Some n)))
      else Inr None)"

record session_data =
  sd_client_id :: "int option"
  sd_product_id :: "int option"
  sd_freelance_id :: "int option"
  sd_montant :: decimal
  sd_commission_plateforme :: decimal
  sd_stripe_payment_id :: string
  sd_stripe_transfer_id :: "string option"
  sd_statut_paiement :: statut
  sd_payment_intent_id :: "string option"

text \<open>
  \<^verbatim>\<open>handle_checkout_session_completed\<close>: the amounts are divided by 100 as floats in the
  source; the model keeps the exact quotient.
\<close>

definition handle_checkout_session_completed ::
  "(string \<Rightarrow> retrieved_intent option) \<Rightarrow> (string \<Rightarrow> int option) \<Rightarrow>
   checkout_session \<Rightarrow> error + session_data" where
  "handle_checkout_session_completed retrieve py_int session =
     (let client_id = map_of (cs_metadata session) ''client_id'';
          product_id = map_of (cs_metadata session) ''product_id'';
          freelance_id = map_of (cs_metadata session) ''freelance_id''
      in case cs_amount_total session of
        None \<Rightarrow> Inl TypeError
      | Some cents_total \<Rightarrow>
      let amount_total = of_int cents_total / 100;
          payment_intent_id = cs_payment_intent session;
          retrieved =
            (if str_truthy payment_intent_id
             then (case payment_intent_id of
                     None \<Rightarrow> Inr None
                   | Some i \<Rightarrow> (case retrieve i of None \<Rightarrow> Inl ApiError | Some r \<Rightarrow> Inr (Some r)))
             else Inr None)
      in case retrieved of
        Inl e \<Rightarrow> Inl e
      | Inr payment_intent \<Rightarrow>
      let transfer_id =
            (case payment_intent of
               None \<Rightarrow> None
             | Some r \<Rightarrow> if str_truthy (ri_transfer r) then ri_transfer r else None);
          application_fee_amount =
            (case payment_intent of
               None \<Rightarrow> 0
             | Some r \<Rightarrow>
                 (case ri_application_fee_amount r of
                    None \<Rightarrow> 0
                  | Some fee \<Rightarrow> if fee \<noteq> 0 then of_int fee / 100 else 0))
      in case int_if_present py_int client_id of Inl e \<Rightarrow> Inl e
      | Inr cid \<Rightarrow>
      (case int_if_present py_int product_id of Inl e \<Rightarrow> Inl e
      | Inr pid \<Rightarrow>
      (case int_if_present py_int freelance_id of Inl e \<Rightarrow> Inl e
      | Inr fid \<Rightarrow>
        Inr \<lparr> sd_client_id = cid,
              sd_product_id = pid,
              sd_freelance_id = fid,
              sd_montant = amount_total,
              sd_commission_plateforme = application_fee_amount,
              sd_stripe_payment_id = cs_id session,
              sd_stripe_transfer_id = transfer_id,
              sd_statut_paiement = Paye,
              sd_payment_intent_id = payment_intent_id \<rparr>)))"

text \<open>
  The \<^verbatim>\<open>INSERT INTO ventes\<close> of the webhook: the columns it does not name take their
  defaults.
\<close>

definition insert_vente :: "nat \<Rightarrow> session_data \<Rightarrow> database \<Rightarrow> database" where
  "insert_vente now sd db =
     db \<lparr> ventes := ventes db @
            [\<lparr> v_id = next_vente_id db,
               v_user_id = sd_freelance_id sd,
               v_client_id = sd_client_id sd,
               v_produit_id = sd_product_id sd,
               v_montant = sd_montant sd,
               v_discount_applied = 0,
               v_description = Some ''Paiement via Stripe'',
               v_date = now,
               v_source = Some ''stripe'',
               v_commission_plateforme = sd_commission_plateforme sd,
               v_commission_commerciale = 0,
               v_commission_partenaire = 0,
               v_montant_net_freelance = 0,
               v_commercial_id = None,
               v_partenaire_id = None,
               v_stripe_payment_id = Some (sd_stripe_payment_id sd),
               v_statut_paiement = Some (sd_statut_paiement sd),
               v_feedback = None,
               v_invoice_id = None \<rparr>],
          next_vente_id := next_vente_id db + 1 \<rparr>"

text \<open>
  The request the Flask endpoint reads: the raw body, the \<^verbatim>\<open>Stripe-Signature\<close> header and
  the event \<^verbatim>\<open>stripe.Event.construct_from(request.json, ...)\<close> builds from the body without
  any check.
\<close>

record webhook_request =
  rq_payload :: string
  rq_sig_header :: "string option"
  rq_json :: event

text \<open>
  The first half of the endpoint: the event to handle, or the response that rejects the
  request. Without a signature header and without a configured secret the body is taken
  as it is. An exception of the library other than the two the code names is not caught
  and ends the request with the framework's status 500.
\<close>

definition webhook_event ::
  "construct_event \<Rightarrow> string option \<Rightarrow> webhook_request \<Rightarrow> (string \<times> nat) + event" where
  "webhook_event construct_ev secret req =
     (if \<not> str_truthy (rq_sig_header req) \<and> \<not> str_truthy secret
      then Inr (rq_json req)
      else (case construct_ev (rq_payload req) (rq_sig_header req) secret of
              Inr ev \<Rightarrow> Inr ev
            | Inl Invalid_payload \<Rightarrow> Inl (''Invalid payload'', 400)
            | Inl Signature_verification_error \<Rightarrow> Inl (''Invalid signature'', 400)
            | Inl Other_exception \<Rightarrow> Inl (''Internal Server Error'', 500)))"

text \<open>
  The endpoint. \<^verbatim>\<open>engine\<close> is the configured database, if any.
\<close>

definition flask_stripe_webhook ::
  "construct_event \<Rightarrow> (string \<Rightarrow> retrieved_intent option) \<Rightarrow> (string \<Rightarrow> int option) \<Rightarrow>
   string option \<Rightarrow> nat \<Rightarrow> webhook_request \<Rightarrow> database option \<Rightarrow>
   (string \<times> nat) \<times> database option" where
  "flask_stripe_webhook construct_ev retrieve py_int secret now req engine =
     (case webhook_event construct_ev secret req of
        Inl response \<Rightarrow> (response, engine)
      | Inr (Checkout_session_completed session) \<Rightarrow>
          (case handle_checkout_session_completed retrieve py_int session of
             Inl e \<Rightarrow> ((''Processed with error (will not retry)'', 200), engine)
           | Inr sd \<Rightarrow>
               (case engine of
                  None \<Rightarrow> ((''Database connection error'', 500), engine)
                | Some db \<Rightarrow> ((''Success'', 200), Some (insert_vente now sd db))))
      | Inr _ \<Rightarrow> ((''Success'', 200), engine))"

section \<open>Example data\<close>

text \<open>
  A reader of decimal digit strings, to stand for Python's \<^verbatim>\<open>int\<close> in the examples.
\<close>

definition digit_value :: "char \<Rightarrow> int option" where
  "digit_value c =
     (let n = (of_char c :: nat)
      in if 48 \<le> n \<and> n \<le> 57 then Some (int n - 48) else None)"

fun parse_digits :: "int \<Rightarrow> string \<Rightarrow> int option" where
  "parse_digits acc [] = Some acc"
| "parse_digits acc (c # cs) =
     (case digit_value c of None \<Rightarrow> None | Some d \<Rightarrow> parse_digits (10 * acc + d) cs)"

definition parse_int :: "string \<Rightarrow> int option" where
  "parse_int s = (if s = [] then None else parse_digits 0 s)"

text \<open>
  A store with a sales agent at 5 percent, a partner at 2 percent, and one of each with
  no percentage configured.
\<close>

definition rate_store :: database where
  "rate_store =
     \<lparr> users = [], clients = [], produits = [],
       commerciaux = [\<lparr> com_id = 1, com_pourcentage = Some 5 \<rparr>,
                      \<lparr> com_id = 3, com_pourcentage = None \<rparr>],
       partenaires = [\<lparr> par_id = 2, par_pourcentage = Some 2 \<rparr>,
                      \<lparr> par_id = 4, par_pourcentage = None \<rparr>],
       ventes = [], affiliations = [], next_vente_id = 1, next_affiliation_id = 1 \<rparr>"

text \<open>A freelancer, and a store with that freelancer, a client and an active product.\<close>

definition freelancer1 :: user where
  "freelancer1 =
     \<lparr> usr_id = 1, usr_role = ''freelance'', usr_stripe_account_id = None,
       usr_payout_enabled = False, usr_kyc_status = None, usr_total_revenue = Some 0 \<rparr>"

definition shop_store :: database where
  "shop_store =
     \<lparr> users = [freelancer1],
       clients = [\<lparr> cl_id = 1, cl_lifetime_value = Some 0, cl_last_purchase_date = None \<rparr>],
       produits = [\<lparr> prod_id = 1, prod_actif = True \<rparr>],
       commerciaux = [\<lparr> com_id = 1, com_pourcentage = Some 5 \<rparr>],
       partenaires = [\<lparr> par_id = 2, par_pourcentage = Some 2 \<rparr>],
       ventes = [], affiliations = [], next_vente_id = 1, next_affiliation_id = 1 \<rparr>"

text \<open>A request for a sale of 100.00 by that freelancer, with an optional sales agent.\<close>

definition sale_request :: "int option \<Rightarrow> vente_create" where
  "sale_request c =
     \<lparr> vc_user_id = 1, vc_client_id = 1, vc_produit_id = 1, vc_montant = 100,
       vc_discount_applied = None, vc_description = None, vc_source = None,
       vc_commercial_id = c, vc_partenaire_id = None \<rparr>"

text \<open>
  The same store with the agents and partners of \<^const>\<open>rate_store\<close>, and a request for a
  sale of 100.00 that names an agent and a partner.
\<close>

definition rateless_shop :: database where
  "rateless_shop =
     shop_store \<lparr> commerciaux := commerciaux rate_store, partenaires := partenaires rate_store \<rparr>"

definition referred_request :: "int option \<Rightarrow> int option \<Rightarrow> vente_create" where
  "referred_request c p =
     \<lparr> vc_user_id = 1, vc_client_id = 1, vc_produit_id = 1, vc_montant = 100,
       vc_discount_applied = None, vc_description = None, vc_source = None,
       vc_commercial_id = c, vc_partenaire_id = p \<rparr>"

text \<open>The store once it holds one sale of the freelancer, with a payment reference and a status.\<close>

definition stored_sale :: "string option \<Rightarrow> statut option \<Rightarrow> vente" where
  "stored_sale ref st =
     \<lparr> v_id = 1, v_user_id = Some 1, v_client_id = Some 1, v_produit_id = Some 1,
       v_montant = 100, v_discount_applied = 0, v_description = None, v_date = 7,
       v_source = None, v_commission_plateforme = 10, v_commission_commerciale = 0,
       v_commission_partenaire = 0, v_montant_net_freelance = 90, v_commercial_id = None,
       v_partenaire_id = None, v_stripe_payment_id = ref, v_statut_paiement = st,
       v_feedback = None, v_invoice_id = None \<rparr>"

definition sale_store :: "string option \<Rightarrow> statut option \<Rightarrow> database" where
  "sale_store ref st = shop_store \<lparr> ventes := [stored_sale ref st], next_vente_id := 2 \<rparr>"

definition status_request :: "statut \<Rightarrow> vente_update" where
  "status_request st =
     \<lparr> vu_statut_paiement = Some (Some st), vu_feedback = None,
       vu_stripe_payment_id = None, vu_invoice_id = None \<rparr>"

text \<open>A payment intent of the freelancer's client, and one without metadata.\<close>

definition paid_intent :: payment_intent where
  "paid_intent =
     \<lparr> pi_id = ''pi_1'',
       pi_metadata = [(''freelance_id'', ''1''), (''product_id'', ''1''), (''client_id'', ''1'')],
       pi_amount = IntVal 10000,
       pi_application_fee_amount = IntVal 1000 \<rparr>"

definition bare_intent :: payment_intent where
  "bare_intent =
     \<lparr> pi_id = ''pi_2'', pi_metadata = [], pi_amount = IntVal 10000,
       pi_application_fee_amount = IntVal 1000 \<rparr>"

text \<open>
  A completed checkout session and the request that delivers it with a signature header;
  a provider library that accepts the request and one that rejects every request.
\<close>

definition paid_session :: checkout_session where
  "paid_session =
     \<lparr> cs_id = ''cs_1'',
       cs_metadata = [(''client_id'', ''1''), (''product_id'', ''1''), (''freelance_id'', ''1'')],
       cs_amount_total = Some 10000,
       cs_payment_intent = None \<rparr>"

definition signed_request :: webhook_request where
  "signed_request =
     \<lparr> rq_payload = ''body'', rq_sig_header = Some ''t=1,v1=5257'',
       rq_json = Checkout_session_completed paid_session \<rparr>"

definition accept_event :: construct_event where
  "accept_event payload sig secret = Inr (Checkout_session_completed paid_session)"

definition reject_event :: construct_event where
  "reject_event payload sig secret = Inl Signature_verification_error"

definition no_intent :: "string \<Rightarrow> retrieved_intent option" where
  "no_intent i = None"

text \<open>The id, payment reference and status of every sale of a store.\<close>

definition payment_refs :: "database \<Rightarrow> (int \<times> string option \<times> statut option) list" where
  "payment_refs db = map (\<lambda>v. (v_id v, v_stripe_payment_id v, v_statut_paiement v)) (ventes db)"

section \<open>Auxiliary facts\<close>

lemma floor_rat_numeral_divide:
  "\<lfloor>numeral a / numeral b :: rat\<rfloor> = numeral a div numeral b"
  by (metis floor_divide_of_int_eq of_int_numeral)

lemmas eval_commissions =
  calculate_commissions_def id_truthy_def quantize_cents_def round_half_even_def
  Let_def floor_rat_numeral_divide

lemmas eval_flask =
  flask_stripe_webhook_def webhook_event_def handle_checkout_session_completed_def
  insert_vente_def int_if_present_def str_truthy_def parse_int_def digit_value_def
  payment_refs_def Let_def

lemmas eval_stores =
  shop_store_def sale_store_def stored_sale_def freelancer1_def sale_request_def
  status_request_def rateless_shop_def referred_request_def rate_store_def

lemmas eval_ranges =
  is_amount_def is_percentage_def is_rate_def store_percentages_def

lemma find_update_first:
  "find P xs = Some x \<Longrightarrow> P (f x) \<Longrightarrow> find P (update_first P f xs) = Some (f x)"
  by (induction xs) (auto split: if_splits)

lemma find_Some_holds: "find P xs = Some x \<Longrightarrow> P x"
  by (induction xs) (auto split: if_splits)

lemma create_affiliations_frame:
  "users (create_affiliations c p vid cd db) = users db"
  "clients (create_affiliations c p vid cd db) = clients db"
  "ventes (create_affiliations c p vid cd db) = ventes db"
  by (simp_all add: create_affiliations_def add_affiliation_def Let_def split: option.splits)

lemma v_id_apply_vente_update: "v_id (apply_vente_update d s) = v_id s"
  by (simp add: apply_vente_update_def Let_def split: option.splits)

lemma statut_apply_vente_update:
  "vu_statut_paiement d = Some st \<Longrightarrow> v_statut_paiement (apply_vente_update d s) = st"
  by (simp add: apply_vente_update_def Let_def split: option.splits)

lemma cl_id_credit_client: "cl_id (credit_client now a c) = cl_id c"
  by (simp add: credit_client_def)

lemma usr_id_credit_freelancer: "usr_id (credit_freelancer n u) = usr_id u"
  by (simp add: credit_freelancer_def)

section \<open>The sum of the breakdown\<close>

text \<open>
  \<^verbatim>\<open>calculate_commissions_with_partners\<close> quantizes nothing and takes the freelancer's
  net as the remainder, so its four components add up to the discounted amount, for
  amounts and rates in the range of the columns.
\<close>

lemma calculate_commissions_with_partners_sum:
  assumes "is_amount a" and "is_amount d" and "is_rate cr" and "is_rate pr"
  shows "platform_fee (calculate_commissions_with_partners a d cr pr)
         + commercial_commission (calculate_commissions_with_partners a d cr pr)
         + partner_commission (calculate_commissions_with_partners a d cr pr)
         + net_amount (calculate_commissions_with_partners a d cr pr) = a - d"
  by (simp add: calculate_commissions_with_partners_def Let_def field_simps)

text \<open>
  C1. The four components of a breakdown add up to the amount that is split, the rounding
  remainder going to the freelancer. \<^verbatim>\<open>calculate_commissions\<close> computes the freelancer's
  share as the remainder and then rounds each of the four amounts to cents on its own:
  for a sale of 10.05 with a sales agent at the default 5 percent it returns 1.00, 0.50,
  0.00 and 8.54, which add up to 10.04.
\<close>

theorem calculate_commissions_loses_a_cent:
  "plateforme (calculate_commissions rate_store (1005 / 100) (Some 3) None) = 1 \<and>
   commerciale (calculate_commissions rate_store (1005 / 100) (Some 3) None) = 1 / 2 \<and>
   partenaire (calculate_commissions rate_store (1005 / 100) (Some 3) None) = 0 \<and>
   freelance (calculate_commissions rate_store (1005 / 100) (Some 3) None) = 854 / 100 \<and>
   plateforme (calculate_commissions rate_store (1005 / 100) (Some 3) None)
   + commerciale (calculate_commissions rate_store (1005 / 100) (Some 3) None)
   + partenaire (calculate_commissions rate_store (1005 / 100) (Some 3) None)
   + freelance (calculate_commissions rate_store (1005 / 100) (Some 3) None) = 1004 / 100"
  by (simp add: eval_commissions rate_store_def)

section \<open>The platform rate\<close>

text \<open>
  Against C3 as stated: \<^verbatim>\<open>calculate_commissions_with_partners\<close> on 100.00 without any
  referral party does not charge 15.00.
\<close>

theorem flat_platform_fee_without_parties:
  "platform_fee (calculate_commissions_with_partners 100 0 None None) \<noteq> 15"
  by (simp add: calculate_commissions_with_partners_def Let_def)

text \<open>
  C3, amended. \<^verbatim>\<open>calculate_commissions\<close> selects the platform rate by which of the two
  referral ids are given and not 0, whatever the amount and the store: 15 percent with
  neither, 10 percent with the sales agent alone, 13 percent with the partner alone, 8
  percent with both; the platform's share is that rate of the amount, rounded to cents.
  On 100.00 it returns 15.00 for the platform without any party; 10.00, 5.00 and 85.00
  with a sales agent at 5 percent; 13.00, 2.00 and 85.00 with a partner at 2 percent;
  8.00, 5.00, 2.00 and 85.00 with both. \<^verbatim>\<open>calculate_commissions_with_partners\<close> charges a
  tenth of the discounted amount, whichever rates it is given. The amounts are
  \<^verbatim>\<open>Numeric(10, 2)\<close> values and the percentages of the store \<^verbatim>\<open>Numeric(5, 2)\<close> values.
\<close>

theorem platform_rate_by_presence:
  assumes "is_amount m" and "store_percentages conn" and "is_amount a" and "is_amount d"
  shows "plateforme (calculate_commissions conn m cid pid) =
           quantize_cents
             (m * (if id_truthy cid \<and> id_truthy pid then 8 / 100
                   else if id_truthy cid then 10 / 100
                   else if id_truthy pid then 13 / 100
                   else 15 / 100)) \<and>
         calculate_commissions rate_store 100 None None =
           \<lparr> plateforme = 15, commerciale = 0, partenaire = 0, freelance = 85 \<rparr> \<and>
         calculate_commissions rate_store 100 (Some 1) None =
           \<lparr> plateforme = 10, commerciale = 5, partenaire = 0, freelance = 85 \<rparr> \<and>
         calculate_commissions rate_store 100 None (Some 2) =
           \<lparr> plateforme = 13, commerciale = 0, partenaire = 2, freelance = 85 \<rparr> \<and>
         calculate_commissions rate_store 100 (Some 1) (Some 2) =
           \<lparr> plateforme = 8, commerciale = 5, partenaire = 2, freelance = 85 \<rparr> \<and>
         platform_fee (calculate_commissions_with_partners a d cr pr) = (a - d) / 10"
proof -
  have "plateforme (calculate_commissions conn m cid pid) =
          quantize_cents
            (m * (if id_truthy cid \<and> id_truthy pid then 8 / 100
                  else if id_truthy cid then 10 / 100
                  else if id_truthy pid then 13 / 100
                  else 15 / 100))"
    by (simp add: calculate_commissions_def Let_def)
  moreover have "platform_fee (calculate_commissions_with_partners a d cr pr) = (a - d) / 10"
    by (simp add: calculate_commissions_with_partners_def Let_def)
  ultimately show ?thesis
    by (simp add: eval_commissions rate_store_def)
qed

text \<open>
  The amended C3 at an amount of 250.00 with the sales agent 1 and the partner 2 of the
  example store, and at 100.00 without a discount.
\<close>

theorem platform_rate_by_presence_witness:
  "is_amount 250 \<and> store_percentages rate_store \<and> is_amount 100 \<and> is_amount 0 \<and>
   plateforme (calculate_commissions rate_store 250 (Some 1) (Some 2)) = 20 \<and>
   platform_fee (calculate_commissions_with_partners 100 0 (Some (5 / 100)) None) = 10"
proof -
  have r: "is_amount 250" "store_percentages rate_store" "is_amount 100" "is_amount 0"
    by (simp_all add: eval_ranges rate_store_def)
  from platform_rate_by_presence [OF r, of "Some 1" "Some 2" "Some (5 / 100)" None] r
  show ?thesis
    by (simp add: id_truthy_def quantize_cents_def round_half_even_def Let_def
        floor_rat_numeral_divide)
qed

section \<open>A discount above the amount\<close>

text \<open>
  Against C5 as stated: with an amount of 50.00 and a discount of 100.00 the discounted
  amount is -50.00, the platform fee -5.00 and the freelancer's net -45.00.
\<close>

theorem discount_above_amount_is_not_clamped:
  "discounted_amount (calculate_commissions_with_partners 50 100 None None) = - 50 \<and>
   platform_fee (calculate_commissions_with_partners 50 100 None None) = - 5 \<and>
   net_amount (calculate_commissions_with_partners 50 100 None None) = - 45"
  by (simp add: calculate_commissions_with_partners_def Let_def)

text \<open>
  C5, amended. For a discount above the amount the calculation clamps nothing: the
  discounted amount is the negative difference, the platform fee is a tenth of it and
  negative too, and the four components still add up to that difference. The amount and
  the discount are \<^verbatim>\<open>Numeric(10, 2)\<close> values and the rates percentages of the store
  divided by 100, the range in which the Decimal arithmetic of the source is exact.
\<close>

theorem discount_above_amount:
  assumes "a < d"
    and "is_amount a" and "is_amount d" and "is_rate cr" and "is_rate pr"
  shows "discounted_amount (calculate_commissions_with_partners a d cr pr) = a - d \<and>
         discounted_amount (calculate_commissions_with_partners a d cr pr) < 0 \<and>
         platform_fee (calculate_commissions_with_partners a d cr pr) = (a - d) / 10 \<and>
         platform_fee (calculate_commissions_with_partners a d cr pr) < 0 \<and>
         platform_fee (calculate_commissions_with_partners a d cr pr)
         + commercial_commission (calculate_commissions_with_partners a d cr pr)
         + partner_commission (calculate_commissions_with_partners a d cr pr)
         + net_amount (calculate_commissions_with_partners a d cr pr) = a - d"
  using assms(1) by (simp add: calculate_commissions_with_partners_def Let_def field_simps)

text \<open>
  The amended C5 at an amount of 50.00 and a discount of 100.00, with a sales agent at 5
  percent.
\<close>

theorem discount_above_amount_witness:
  "(50::rat) < 100 \<and> is_amount 50 \<and> is_amount 100 \<and> is_rate (Some (5 / 100)) \<and> is_rate None \<and>
   discounted_amount (calculate_commissions_with_partners 50 100 (Some (5 / 100)) None) = - 50 \<and>
   platform_fee (calculate_commissions_with_partners 50 100 (Some (5 / 100)) None) = - 5 \<and>
   commercial_commission (calculate_commissions_with_partners 50 100 (Some (5 / 100)) None)
     = - 5 / 2 \<and>
   net_amount (calculate_commissions_with_partners 50 100 (Some (5 / 100)) None) = - 85 / 2"
proof -
  have r: "(50::rat) < 100" "is_amount 50" "is_amount 100" "is_rate (Some (5 / 100))"
    "is_rate None"
    by (simp_all add: eval_ranges)
  from discount_above_amount [OF r] r show ?thesis
    by (simp add: calculate_commissions_with_partners_def Let_def)
qed

section \<open>A party without a configured percentage\<close>




section \<open>A payment intent without metadata\<close>

text \<open>
  C10. For a payment intent whose metadata dict is empty \<^verbatim>\<open>handle_payment_success\<close>
  returns at once: the store it leaves is the store it was given, so no sale and no
  affiliation is created and no client or user is changed.
\<close>

theorem empty_metadata_changes_nothing:
  "pi_metadata p = [] \<Longrightarrow> handle_payment_success py_int now p db = Inr db"
  by (simp add: handle_payment_success_def)

text \<open>C10 at a payment intent of 100.00 without metadata.\<close>

theorem empty_metadata_changes_nothing_witness:
  "pi_metadata bare_intent = [] \<and>
   handle_payment_success parse_int 7 bare_intent shop_store = Inr shop_store"
  using empty_metadata_changes_nothing [of bare_intent parse_int 7 shop_store]
  by (simp add: bare_intent_def)

section \<open>The status of a sale\<close>

text \<open>
  Against C4 as stated: the owner of a sale that is \<^verbatim>\<open>en_attente\<close> asks
  \<^verbatim>\<open>update_sale\<close> for the status \<^verbatim>\<open>rembourse\<close>; the update succeeds and the sale is
  stored as refunded.
\<close>

theorem pending_sale_can_be_marked_refunded:
  "update_sale 1 (status_request Rembourse) freelancer1 (sale_store None (Some En_attente)) =
     Inr (stored_sale None (Some Rembourse), sale_store None (Some Rembourse))"
  by (simp add: update_sale_def apply_vente_update_def eval_stores Let_def)

text \<open>
  C4, amended. \<^verbatim>\<open>update_sale\<close> checks that the sale exists and that the caller owns it
  or is an administrator, and nothing else: whatever status the sale has, the status the
  request sets (\<^verbatim>\<open>paye\<close>, \<^verbatim>\<open>en_attente\<close>, \<^verbatim>\<open>rembourse\<close> or null) is stored. There
  is no cancelled status.
\<close>

theorem update_sale_sets_any_status:
  assumes "find (\<lambda>v. v_id v = sid) (ventes db) = Some s"
    and "v_user_id s = Some (usr_id u) \<or> usr_role u = ''admin''"
    and "vu_statut_paiement d = Some st"
  shows "update_sale sid d u db =
           Inr (apply_vente_update d s,
                db \<lparr> ventes := update_first (\<lambda>v. v_id v = sid)
                                  (apply_vente_update d) (ventes db) \<rparr>) \<and>
         v_statut_paiement (apply_vente_update d s) = st \<and>
         find (\<lambda>v. v_id v = sid)
           (update_first (\<lambda>v. v_id v = sid) (apply_vente_update d) (ventes db)) =
           Some (apply_vente_update d s)"
proof -
  from assms(1) have "v_id s = sid"
    by (rule find_Some_holds)
  then have "find (\<lambda>v. v_id v = sid)
               (update_first (\<lambda>v. v_id v = sid) (apply_vente_update d) (ventes db)) =
             Some (apply_vente_update d s)"
    using assms(1) by (intro find_update_first) (simp_all add: v_id_apply_vente_update)
  moreover have "update_sale sid d u db =
                   Inr (apply_vente_update d s,
                        db \<lparr> ventes := update_first (\<lambda>v. v_id v = sid)
                                          (apply_vente_update d) (ventes db) \<rparr>)"
    using assms(1,2) by (auto simp: update_sale_def)
  ultimately show ?thesis
    using statut_apply_vente_update [OF assms(3)] by simp
qed

text \<open>The amended C4 at a paid sale that its owner sets back to \<^verbatim>\<open>en_attente\<close>.\<close>

theorem update_sale_sets_any_status_witness:
  "find (\<lambda>v. v_id v = 1) (ventes (sale_store None (Some Paye))) =
     Some (stored_sale None (Some Paye)) \<and>
   v_user_id (stored_sale None (Some Paye)) = Some (usr_id freelancer1) \<and>
   vu_statut_paiement (status_request En_attente) = Some (Some En_attente) \<and>
   update_sale 1 (status_request En_attente) freelancer1 (sale_store None (Some Paye)) =
     Inr (stored_sale None (Some En_attente), sale_store None (Some En_attente))"
proof -
  have f: "find (\<lambda>v. v_id v = 1) (ventes (sale_store None (Some Paye))) =
             Some (stored_sale None (Some Paye))"
    by (simp add: eval_stores)
  have o: "v_user_id (stored_sale None (Some Paye)) = Some (usr_id freelancer1) \<or>
           usr_role freelancer1 = ''admin''"
    by (simp add: eval_stores)
  have r: "vu_statut_paiement (status_request En_attente) = Some (Some En_attente)"
    by (simp add: status_request_def)
  from update_sale_sets_any_status [OF f o r] f r show ?thesis
    by (simp add: apply_vente_update_def eval_stores Let_def)
qed

section \<open>A sale that names a missing party\<close>




section \<open>The accumulators\<close>

lemma create_sale_result:
  assumes "create_sale now d u db = Inr (s, db')"
  shows "v_statut_paiement s = Some En_attente"
    and "clients db' = update_first (\<lambda>c. cl_id c = vc_client_id d)
                         (credit_client now (vc_montant d)) (clients db)"
    and "users db' = update_first (\<lambda>u. usr_id u = vc_user_id d)
                       (credit_freelancer (v_montant_net_freelance s)) (users db)"
    and "find (\<lambda>c. cl_id c = vc_client_id d) (clients db) \<noteq> None"
  using assms
  by (auto simp: create_sale_def Let_def create_affiliations_frame
      split: option.splits if_splits)

lemma replay_frame:
  assumes "find (\<lambda>v. v_stripe_payment_id v = Some (pi_id p)) (ventes db) = Some s"
    and "handle_payment_success py_int now p db = Inr db'"
  shows "clients db' = clients db \<and> users db' = users db \<and> affiliations db' = affiliations db"
  using assms
  by (auto simp: handle_payment_success_def Let_def split: sum.splits if_splits)

text \<open>
  Against C9 as stated: the freelancer creates a sale of 100.00; the sale is stored
  \<^verbatim>\<open>en_attente\<close>, and the lifetime value of the client has gone from 0 to 100.00 and the
  total revenue of the freelancer from 0 to 90.00.
\<close>

theorem pending_sale_credits_accumulators:
  "map cl_lifetime_value (clients shop_store) = [Some 0] \<and>
   map usr_total_revenue (users shop_store) = [Some 0] \<and>
   \<not> isl (create_sale 7 (sale_request None) freelancer1 shop_store) \<and>
   v_statut_paiement (fst (projr (create_sale 7 (sale_request None) freelancer1 shop_store))) =
     Some En_attente \<and>
   map cl_lifetime_value
     (clients (snd (projr (create_sale 7 (sale_request None) freelancer1 shop_store)))) =
     [Some 100] \<and>
   map usr_total_revenue
     (users (snd (projr (create_sale 7 (sale_request None) freelancer1 shop_store)))) =
     [Some 90]"
  by (simp add: create_sale_def eval_stores id_truthy_def Let_def
      calculate_commissions_with_partners_def create_affiliations_def
      credit_client_def credit_freelancer_def dec_or_zero_def)

text \<open>
  C9, amended. The lifetime value of the client and the total revenue of the freelancer
  are incremented when \<^verbatim>\<open>create_sale\<close> creates the sale, which it creates
  \<^verbatim>\<open>en_attente\<close>: the first by the amount, the second by the freelancer's net. When
  \<^verbatim>\<open>handle_payment_success\<close> finds a sale with the payment reference and moves it to
  \<^verbatim>\<open>paye\<close>, no client and no user is changed.
\<close>

theorem accumulators_follow_creation:
  assumes "create_sale now d u db = Inr (s, db')"
    and "find (\<lambda>v. v_stripe_payment_id v = Some (pi_id p)) (ventes db2) = Some s2"
    and "handle_payment_success py_int now2 p db2 = Inr db2'"
  shows "v_statut_paiement s = Some En_attente \<and>
         (\<exists>c. find (\<lambda>c. cl_id c = vc_client_id d) (clients db) = Some c \<and>
              find (\<lambda>c. cl_id c = vc_client_id d) (clients db') =
                Some (credit_client now (vc_montant d) c) \<and>
              cl_lifetime_value (credit_client now (vc_montant d) c) =
                Some (dec_or_zero (cl_lifetime_value c) + vc_montant d)) \<and>
         (\<forall>f. find (\<lambda>u. usr_id u = vc_user_id d) (users db) = Some f \<longrightarrow>
              find (\<lambda>u. usr_id u = vc_user_id d) (users db') =
                Some (credit_freelancer (v_montant_net_freelance s) f) \<and>
              usr_total_revenue (credit_freelancer (v_montant_net_freelance s) f) =
                Some (dec_or_zero (usr_total_revenue f) + v_montant_net_freelance s)) \<and>
         clients db2' = clients db2 \<and> users db2' = users db2"
proof -
  note r = create_sale_result [OF assms(1)]
  from r(4) obtain c where c: "find (\<lambda>c. cl_id c = vc_client_id d) (clients db) = Some c"
    by auto
  then have "cl_id c = vc_client_id d"
    by (rule find_Some_holds)
  then have "find (\<lambda>c. cl_id c = vc_client_id d) (clients db') =
               Some (credit_client now (vc_montant d) c)"
    unfolding r(2) using c by (intro find_update_first) (simp_all add: cl_id_credit_client)
  moreover have "find (\<lambda>u. usr_id u = vc_user_id d) (users db') =
                   Some (credit_freelancer (v_montant_net_freelance s) f)"
    if f: "find (\<lambda>u. usr_id u = vc_user_id d) (users db) = Some f" for f
  proof -
    from f have "usr_id f = vc_user_id d"
      by (rule find_Some_holds)
    then show ?thesis
      unfolding r(3) using f by (intro find_update_first) (simp_all add: usr_id_credit_freelancer)
  qed
  ultimately show ?thesis
    using r(1) c replay_frame [OF assms(2,3)]
    by (simp add: credit_client_def credit_freelancer_def)
qed

text \<open>
  The amended C9 at the sale of 100.00 the freelancer creates, and at the payment event
  for a stored sale that is still \<^verbatim>\<open>en_attente\<close>.
\<close>

theorem accumulators_follow_creation_witness:
  "\<not> isl (create_sale 7 (sale_request None) freelancer1 shop_store) \<and>
   find (\<lambda>v. v_stripe_payment_id v = Some (pi_id paid_intent))
     (ventes (sale_store (Some ''pi_1'') (Some En_attente))) =
     Some (stored_sale (Some ''pi_1'') (Some En_attente)) \<and>
   handle_payment_success parse_int 8 paid_intent (sale_store (Some ''pi_1'') (Some En_attente)) =
     Inr (sale_store (Some ''pi_1'') (Some Paye)) \<and>
   find (\<lambda>u. usr_id u = vc_user_id (sale_request None)) (users shop_store) = Some freelancer1 \<and>
   find (\<lambda>u. usr_id u = vc_user_id (sale_request None))
     (users (snd (projr (create_sale 7 (sale_request None) freelancer1 shop_store)))) =
     Some (freelancer1 \<lparr> usr_total_revenue := Some 90 \<rparr>) \<and>
   clients (sale_store (Some ''pi_1'') (Some Paye)) =
     clients (sale_store (Some ''pi_1'') (Some En_attente))"
proof -
  let ?r = "create_sale 7 (sale_request None) freelancer1 shop_store"
  have ok: "\<not> isl ?r"
    by (simp add: create_sale_def eval_stores id_truthy_def Let_def)
  then have r: "?r = Inr (fst (projr ?r), snd (projr ?r))"
    by (cases ?r) simp_all
  have net: "v_montant_net_freelance (fst (projr ?r)) = 90"
    by (simp add: create_sale_def eval_stores id_truthy_def Let_def
        calculate_commissions_with_partners_def dec_or_zero_def)
  have f: "find (\<lambda>v. v_stripe_payment_id v = Some (pi_id paid_intent))
             (ventes (sale_store (Some ''pi_1'') (Some En_attente))) =
           Some (stored_sale (Some ''pi_1'') (Some En_attente))"
    by (simp add: eval_stores paid_intent_def)
  have h: "handle_payment_success parse_int 8 paid_intent
             (sale_store (Some ''pi_1'') (Some En_attente)) =
           Inr (sale_store (Some ''pi_1'') (Some Paye))"
    by (simp add: handle_payment_success_def int_of_metadata_def opt_int_of_metadata_def
        parse_int_def digit_value_def eval_stores paid_intent_def)
  have u: "find (\<lambda>u. usr_id u = vc_user_id (sale_request None)) (users shop_store) =
             Some freelancer1"
    by (simp add: eval_stores)
  from accumulators_follow_creation [OF r f h] ok f h u net show ?thesis
    by (simp add: credit_freelancer_def freelancer1_def dec_or_zero_def)
qed

section \<open>A payment event delivered twice\<close>

lemma replay_existing:
  assumes "find (\<lambda>v. v_stripe_payment_id v = Some i) vs = Some s"
  shows "find (\<lambda>v. v_stripe_payment_id v = Some i)
           (update_first (\<lambda>v. v_stripe_payment_id v = Some i)
              (\<lambda>v. v \<lparr> v_statut_paiement := Some Paye \<rparr>) vs) =
         Some (s \<lparr> v_statut_paiement := Some Paye \<rparr>)"
proof -
  from assms have "v_stripe_payment_id s = Some i"
    by (rule find_Some_holds)
  then show ?thesis
    using assms by (intro find_update_first) simp_all
qed

text \<open>
  \<^verbatim>\<open>handle_payment_success\<close> looks for a sale with the id of the payment intent before
  it goes on to create one: once it has handled a payment intent, handling the same
  intent again returns the store as it is.
\<close>

lemma handle_payment_success_replay:
  assumes "handle_payment_success py_int now p db = Inr db1"
  shows "handle_payment_success py_int now' p db1 = Inr db1"
proof (cases "pi_metadata p = []")
  case True
  with assms show ?thesis by (simp add: handle_payment_success_def)
next
  case False
  show ?thesis
  proof (cases "find (\<lambda>v. v_stripe_payment_id v = Some (pi_id p)) (ventes db)")
    case None
    with assms False have "False"
      by (auto simp: handle_payment_success_def Let_def split: sum.splits)
    then show ?thesis ..
  next
    case (Some s)
    show ?thesis
    proof (cases "v_statut_paiement s = Some Paye")
      case True
      with assms Some \<open>pi_metadata p \<noteq> []\<close> have "db1 = db"
        by (auto simp: handle_payment_success_def Let_def split: sum.splits)
      with assms Some True \<open>pi_metadata p \<noteq> []\<close> show ?thesis
        by (auto simp: handle_payment_success_def Let_def split: sum.splits)
    next
      case unpaid: False
      with assms Some \<open>pi_metadata p \<noteq> []\<close>
      have db1: "db1 = db \<lparr> ventes :=
                     update_first (\<lambda>v. v_stripe_payment_id v = Some (pi_id p))
                       (\<lambda>v. v \<lparr> v_statut_paiement := Some Paye \<rparr>) (ventes db) \<rparr>"
        and ids: "\<exists>n. int_of_metadata py_int (pi_metadata p) ''freelance_id'' = Inr n"
           "\<exists>n. int_of_metadata py_int (pi_metadata p) ''product_id'' = Inr n"
           "\<exists>n. int_of_metadata py_int (pi_metadata p) ''client_id'' = Inr n"
           "\<exists>n. opt_int_of_metadata py_int (pi_metadata p) ''commercial_id'' = Inr n"
           "\<exists>n. opt_int_of_metadata py_int (pi_metadata p) ''partenaire_id'' = Inr n"
        by (auto simp: handle_payment_success_def Let_def split: sum.splits)
      from replay_existing [OF Some] db1 ids \<open>pi_metadata p \<noteq> []\<close> show ?thesis
        by (auto simp: handle_payment_success_def)
    qed
  qed
qed

text \<open>
  C2. A success event that is delivered twice leaves one paid sale, and the second
  delivery inserts nothing. The webhook of app/routes/stripe_routes.py inserts a sale for
  every \<^verbatim>\<open>checkout.session.completed\<close> it receives and never looks for the payment
  reference: after two deliveries of the session \<^verbatim>\<open>cs_1\<close>, both answered with success,
  the store holds the paid sales 1 and 2 with that reference.
\<close>

theorem checkout_event_twice_inserts_two_sales:
  "payment_refs shop_store = [] \<and>
   fst (flask_stripe_webhook accept_event no_intent parse_int (Some ''whsec'') 8 signed_request
         (snd (flask_stripe_webhook accept_event no_intent parse_int (Some ''whsec'') 7
                signed_request (Some shop_store)))) = (''Success'', 200) \<and>
   map_option payment_refs
     (snd (flask_stripe_webhook accept_event no_intent parse_int (Some ''whsec'') 8 signed_request
         (snd (flask_stripe_webhook accept_event no_intent parse_int (Some ''whsec'') 7
                signed_request (Some shop_store))))) =
     Some [(1, Some ''cs_1'', Some Paye), (2, Some ''cs_1'', Some Paye)]"
  by (simp add: eval_flask accept_event_def signed_request_def paid_session_def
      shop_store_def no_intent_def)

section \<open>An event that fails verification\<close>

text \<open>
  C6. When the signature verification of an inbound event fails, the webhook changes
  nothing: the store after the call is the store before it. \<^verbatim>\<open>stripe_webhook\<close> of
  app/routers/stripe.py verifies every request. The webhook of
  app/routes/stripe_routes.py verifies a request that has a signature header, and every
  request when a webhook secret is configured; with neither it runs no verification, so
  none fails.
\<close>

theorem failed_verification_changes_nothing:
  assumes "construct_ev payload sig (Some secret) = Inl err"
    and "str_truthy (rq_sig_header req) \<or> str_truthy secret'"
    and "construct_ev' (rq_payload req) (rq_sig_header req) secret' = Inl err'"
  shows "snd (stripe_webhook construct_ev py_int secret now sig payload db) = db \<and>
         snd (flask_stripe_webhook construct_ev' retrieve py_int' secret' now' req engine) = engine"
proof -
  have "snd (stripe_webhook construct_ev py_int secret now sig payload db) = db"
    using assms(1) by (cases err) (simp_all add: stripe_webhook_def verify_stripe_webhook_def)
  moreover have "snd (flask_stripe_webhook construct_ev' retrieve py_int' secret' now' req engine)
                   = engine"
    using assms(2,3) by (cases err') (auto simp: flask_stripe_webhook_def webhook_event_def)
  ultimately show ?thesis by simp
qed

text \<open>
  C6 at a library that rejects every request, for a request with a signature header and a
  configured secret.
\<close>

theorem failed_verification_changes_nothing_witness:
  "reject_event ''body'' (Some ''t=1,v1=5257'') (Some ''whsec'') =
     Inl Signature_verification_error \<and>
   str_truthy (rq_sig_header signed_request) \<and>
   reject_event (rq_payload signed_request) (rq_sig_header signed_request) (Some ''whsec'') =
     Inl Signature_verification_error \<and>
   snd (stripe_webhook reject_event parse_int ''whsec'' 7 (Some ''t=1,v1=5257'') ''body''
          shop_store) = shop_store \<and>
   snd (flask_stripe_webhook reject_event no_intent parse_int (Some ''whsec'') 7 signed_request
          (Some shop_store)) = Some shop_store"
proof -
  have a: "reject_event ''body'' (Some ''t=1,v1=5257'') (Some ''whsec'') =
             Inl Signature_verification_error"
    by (simp add: reject_event_def)
  have b: "str_truthy (rq_sig_header signed_request) \<or> str_truthy (Some ''whsec'')"
    by (simp add: str_truthy_def signed_request_def)
  have c: "reject_event (rq_payload signed_request) (rq_sig_header signed_request)
             (Some ''whsec'') = Inl Signature_verification_error"
    by (simp add: reject_event_def)
  have d: "str_truthy (rq_sig_header signed_request)"
    by (simp add: str_truthy_def signed_request_def)
  note failed_verification_changes_nothing
    [where construct_ev = reject_event and payload = "''body''"
       and sig = "Some ''t=1,v1=5257''" and secret = "''whsec''"
       and err = Signature_verification_error and req = signed_request
       and secret' = "Some ''whsec''" and construct_ev' = reject_event
       and err' = Signature_verification_error and py_int = parse_int and now = 7
       and db = shop_store and retrieve = no_intent and py_int' = parse_int and now' = 7
       and engine = "Some shop_store", OF a b c]
  with a c d show ?thesis
    by simp
qed

end
